theory Spec2Isabelle
  imports Main "HOL-Library.Word"
begin

section \<open>Package buildkite: the job source and the metadata codec\<close>

text \<open>
  The model follows the revision of the package that carries \<open>VmkiteMetadata\<close>,
  \<open>IsFinished\<close> and \<open>parseAgentQueryRules\<close>. Go strings are byte sequences and are
  modelled as \<open>string\<close>. Pointer fields of the go-buildkite structs (\<open>*string\<close>,
  \<open>*int\<close>, \<open>*Pipeline\<close>) are \<open>option\<close> values, \<open>None\<close> being \<open>nil\<close>; dereferencing
  \<open>nil\<close> panics, which the model returns as \<open>Inl NilDereference\<close>. Calls of \<open>debugf\<close>
  only write to the process log and are left out of this package's model.
\<close>

subsection \<open>Data\<close>

record VmkiteMetadata =
  VMDK :: string
  GuestID :: string

record VmkiteJob =
  ID :: string
  BuildNumber :: string
  Pipeline :: string
  Metadata :: VmkiteMetadata

text \<open>The fields of go-buildkite's \<open>Job\<close>, \<open>Pipeline\<close> and \<open>Build\<close> that the package reads.\<close>

record Job =
  Job_ID :: "string option"
  Job_State :: "string option"
  AgentQueryRules :: "string list"

record BuildPipeline =
  Slug :: "string option"

record Build =
  Build_Number :: "int option"
  Build_Pipeline :: "BuildPipeline option"
  Build_Jobs :: "Job list"

datatype bk_error = ApiError string | NilDereference

text \<open>
  The two calls of the CI service's client. Their answers are parameters of the model:
  \<open>Builds_ListByOrg org states\<close> and \<open>Builds_Get org pipeline number\<close>.
\<close>

record buildkite_client =
  Builds_ListByOrg :: "string \<Rightarrow> string list \<Rightarrow> string + Build list"
  Builds_Get :: "string \<Rightarrow> string \<Rightarrow> string \<Rightarrow> string + Build"

record buildkite_Session =
  Org :: string
  client :: buildkite_client

subsection \<open>Library functions of Go used by the package\<close>

text \<open>
  \<open>strings.SplitN(s, "=", 2)\<close>: at most two substrings; the string is cut at the first
  separator byte and the second substring is the unsplit remainder. A string without the
  separator (the empty string too) comes back as the only element.
\<close>

definition SplitN2 :: "string \<Rightarrow> string list" where
  "SplitN2 s =
     (if CHR ''='' \<in> set s
      then [takeWhile (\<lambda>c. c \<noteq> CHR ''='') s, tl (dropWhile (\<lambda>c. c \<noteq> CHR ''='') s)]
      else [s])"

text \<open>\<open>strconv.Itoa\<close>: the decimal rendering of an integer.\<close>

fun decimal :: "nat \<Rightarrow> string" where
  "decimal n =
     (if n < 10 then [''0123456789'' ! n]
      else decimal (n div 10) @ [''0123456789'' ! (n mod 10)])"

definition Itoa :: "int \<Rightarrow> string" where
  "Itoa i = (if i < 0 then CHR ''-'' # decimal (nat (- i)) else decimal (nat i))"

subsection \<open>parseAgentQueryRules\<close>

text \<open>The body of the loop over the rules: one rule, applied to the metadata so far.\<close>

definition parseRule :: "VmkiteMetadata \<Rightarrow> string \<Rightarrow> VmkiteMetadata" where
  "parseRule metadata r =
     (let parts = SplitN2 r in
      if length parts = 2 then
        (if parts ! 0 = ''vmkite-vmdk'' then metadata\<lparr>VMDK := parts ! 1\<rparr>
         else if parts ! 0 = ''vmkite-guestid'' then metadata\<lparr>GuestID := parts ! 1\<rparr>
         else metadata)
      else metadata)"

fun parseLoop :: "VmkiteMetadata \<Rightarrow> string list \<Rightarrow> VmkiteMetadata" where
  "parseLoop metadata [] = metadata"
| "parseLoop metadata (r # rules) = parseLoop (parseRule metadata r) rules"

definition parseAgentQueryRules :: "string list \<Rightarrow> VmkiteMetadata" where
  "parseAgentQueryRules rules = parseLoop \<lparr>VMDK = [], GuestID = []\<rparr> rules"

subsection \<open>VmkiteJobs\<close>

text \<open>
  The inner loop over the jobs of one build and the outer loop over the builds; \<open>jobs\<close> is
  the slice appended to. The three dereferences happen only for a job that passes the
  test on its metadata.
\<close>

fun jobsLoop :: "Build \<Rightarrow> Job list \<Rightarrow> VmkiteJob list \<Rightarrow> bk_error + VmkiteJob list" where
  "jobsLoop build [] jobs = Inr jobs"
| "jobsLoop build (job # rest) jobs =
     (let metadata = parseAgentQueryRules (AgentQueryRules job) in
      if GuestID metadata \<noteq> [] \<and> VMDK metadata \<noteq> [] then
        (case Job_ID job of
           None \<Rightarrow> Inl NilDereference
         | Some jid \<Rightarrow>
            (case Build_Number build of
               None \<Rightarrow> Inl NilDereference
             | Some n \<Rightarrow>
                (case Build_Pipeline build of
                   None \<Rightarrow> Inl NilDereference
                 | Some p \<Rightarrow>
                    (case Slug p of
                       None \<Rightarrow> Inl NilDereference
                     | Some slug \<Rightarrow>
                         jobsLoop build rest
                           (jobs @ [\<lparr>ID = jid, BuildNumber = Itoa n, Pipeline = slug,
                                     Metadata = metadata\<rparr>])))))
      else jobsLoop build rest jobs)"

fun buildsLoop :: "Build list \<Rightarrow> VmkiteJob list \<Rightarrow> bk_error + VmkiteJob list" where
  "buildsLoop [] jobs = Inr jobs"
| "buildsLoop (build # builds) jobs =
     (case jobsLoop build (Build_Jobs build) jobs of
        Inl e \<Rightarrow> Inl e
      | Inr jobs' \<Rightarrow> buildsLoop builds jobs')"

definition VmkiteJobs :: "buildkite_Session \<Rightarrow> bk_error + VmkiteJob list" where
  "VmkiteJobs bk =
     (case Builds_ListByOrg (client bk) (Org bk) [''scheduled'', ''running''] of
        Inl err \<Rightarrow> Inl (ApiError err)
      | Inr builds \<Rightarrow> buildsLoop builds [])"

subsection \<open>IsFinished\<close>

fun finishedLoop :: "string \<Rightarrow> Job list \<Rightarrow> bk_error + bool" where
  "finishedLoop jid [] = Inr False"
| "finishedLoop jid (buildJob # rest) =
     (case Job_ID buildJob of
        None \<Rightarrow> Inl NilDereference
      | Some i \<Rightarrow>
          if i = jid then
            (case Job_State buildJob of
               None \<Rightarrow> Inl NilDereference
             | Some st \<Rightarrow>
                 if st = ''scheduled'' \<or> st = ''running'' then Inr False else Inr True)
          else finishedLoop jid rest)"

definition IsFinished :: "buildkite_Session \<Rightarrow> VmkiteJob \<Rightarrow> bk_error + bool" where
  "IsFinished bk job =
     (case Builds_Get (client bk) (Org bk) (Pipeline job) (BuildNumber job) of
        Inl err \<Rightarrow> Inl (ApiError err)
      | Inr build \<Rightarrow> finishedLoop (ID job) (Build_Jobs build))"

subsection \<open>The earlier revision of the package\<close>

text \<open>
  The source file also holds an earlier revision of the package, whose jobs carry the
  disk image only. Its decoder returns at the first rule with the key \<open>vmkite-vmdk\<close>.
\<close>

fun vmdkFromAgentQueryRules :: "string list \<Rightarrow> string" where
  "vmdkFromAgentQueryRules [] = []"
| "vmdkFromAgentQueryRules (r # rules) =
     (let parts = SplitN2 r in
      if length parts = 2 \<and> parts ! 0 = ''vmkite-vmdk'' then parts ! 1
      else vmdkFromAgentQueryRules rules)"


section \<open>Package vsphere: the session and the virtual machine specification\<close>

text \<open>
  The package drives the control plane through the govmomi library, which is not part
  of the repository. Its remote calls (lookups, task handling, login) are parameters of
  the model, collected in the record \<open>vsphere_api\<close>: the answer the control plane gives
  to each call. The library's local helpers on device lists are small functions, given
  below for the arguments the package passes, with the fields of the library's structs
  that the package or a property of it depends on. Calls of \<open>debugf\<close> are modelled in the
  keep-alive callback, where the log is part of the behaviour described, and left out
  elsewhere.
\<close>

subsection \<open>Errors\<close>

text \<open>
  An error value is either made by the package itself with \<open>errors.New\<close> or comes out of
  the library. A library error may be a SOAP fault, which may carry a typed fault.
\<close>

datatype VimFault = NotAuthenticated | OtherVimFault string

datatype govmomi_error = SoapFault "VimFault option" | OtherError string

datatype error = ErrorsNew string | Govmomi govmomi_error

fun isNotAuthenticated :: "error \<Rightarrow> bool" where
  "isNotAuthenticated (Govmomi (SoapFault fault)) =
     (case fault of Some NotAuthenticated \<Rightarrow> True | _ \<Rightarrow> False)"
| "isNotAuthenticated _ = False"

subsection \<open>The keep-alive callback installed by connect\<close>

record ConnectionParams =
  Host :: string
  User :: string
  Pass :: string
  Insecure :: bool

text \<open>
  What the callback does to the outside is a sequence of events: a line written by
  \<open>debugf\<close> (format and arguments) or a login request with a user name and a password.
  The answers of the control plane to the probe and to a login request are parameters.
\<close>

datatype event = Debugf string "error list" | LoginRequest string string

record session_api =
  GetCurrentTime :: "govmomi_error option"
  ClientLogin :: "string \<Rightarrow> string \<Rightarrow> govmomi_error option"

text \<open>The closure \<open>login\<close>: \<open>s.client.Login(ctx, u.User)\<close>, with the user information of \<open>cp\<close>.\<close>

definition login :: "session_api \<Rightarrow> ConnectionParams \<Rightarrow> event list \<Rightarrow> error option \<times> event list" where
  "login api cp trace =
     (map_option Govmomi (ClientLogin api (User cp) (Pass cp)),
      trace @ [LoginRequest (User cp) (Pass cp)])"

text \<open>The anonymous function handed to \<open>session.KeepAliveHandler\<close>.\<close>

definition keepAliveCallback ::
    "session_api \<Rightarrow> ConnectionParams \<Rightarrow> event list \<Rightarrow> error option \<times> event list" where
  "keepAliveCallback api cp trace =
     (case GetCurrentTime api of
        None \<Rightarrow> (None, trace)
      | Some gerr \<Rightarrow>
          (let err = Govmomi gerr;
               trace1 = trace @ [Debugf ''session keepalive error: %s'' [err]] in
           if isNotAuthenticated err then
             (case login api cp trace1 of
                (Some err', trace2) \<Rightarrow>
                  (None, trace2 @ [Debugf ''session keepalive failed to re-authenticate: %s'' [err']])
              | (None, trace2) \<Rightarrow>
                  (None, trace2 @ [Debugf ''session keepalive re-authenticated'' []]))
           else (None, trace1)))"

subsection \<open>Objects of the control plane\<close>

type_synonym ManagedObjectReference = string

datatype Datacenter = Datacenter ManagedObjectReference

datatype Network = Network ManagedObjectReference

datatype EthernetCardBacking = EthernetCardBacking string

datatype ClusterComputeResource = ClusterComputeResource ManagedObjectReference

datatype ResourcePool = ResourcePool ManagedObjectReference

datatype Task = Task ManagedObjectReference

record Datastore =
  Datastore_Name :: string
  Datastore_Reference :: ManagedObjectReference

record Folder =
  InventoryPath :: string

record DatacenterFolders =
  VmFolder :: Folder

record object_VirtualMachine =
  object_Name :: string

text \<open>A finder, and the datacenter it has been scoped to with \<open>SetDatacenter\<close>.\<close>

record Finder =
  Finder_dc :: "Datacenter option"

definition NewFinder :: Finder where
  "NewFinder = \<lparr>Finder_dc = None\<rparr>"

definition SetDatacenter :: "Finder \<Rightarrow> Datacenter \<Rightarrow> Finder" where
  "SetDatacenter f dc = f\<lparr>Finder_dc := Some dc\<rparr>"

subsection \<open>Virtual devices\<close>

record VirtualDiskFlatVer2BackingInfo =
  FileName :: string
  BackingDatastore :: "ManagedObjectReference option"
  DiskMode :: string
  ThinProvisioned :: "bool option"

record VirtualVmxnet3 =
  CardBacking :: "EthernetCardBacking option"
  AddressType :: string

text \<open>
  A controller has a key and the keys of the devices attached to it; a disk names its
  controller by that key.
\<close>

record VirtualLsiLogicController =
  Controller_Key :: "32 word"
  Controller_Device :: "32 word list"

record VirtualDisk =
  ControllerKey :: "32 word"
  Backing :: VirtualDiskFlatVer2BackingInfo

record VirtualUSBController =
  AutoConnectDevices :: "bool option"
  EhciEnabled :: "bool option"

text \<open>The interface \<open>types.BaseVirtualDevice\<close>, over the device types the package creates.\<close>

datatype BaseVirtualDevice =
    Vmxnet3 VirtualVmxnet3
  | SCSIController VirtualLsiLogicController
  | Disk VirtualDisk
  | USBController VirtualUSBController

type_synonym VirtualDeviceList = "BaseVirtualDevice list"

record VirtualDeviceConfigSpec =
  Device :: BaseVirtualDevice
  Operation :: string

record OptionValue =
  Key :: string
  Value :: string

record VirtualMachineFileInfo =
  VmPathName :: string

record VirtualMachineConfigSpec =
  DeviceChange :: "VirtualDeviceConfigSpec list"
  ExtraConfig :: "OptionValue list"
  Files :: VirtualMachineFileInfo
  GuestId :: string
  Spec_MemoryMB :: "64 word"
  Spec_Name :: string
  NestedHVEnabled :: "bool option"
  Spec_NumCPUs :: "32 word"
  Spec_NumCoresPerSocket :: "32 word"
  VirtualICH7MPresent :: "bool option"
  VirtualSMCPresent :: "bool option"

subsection \<open>Sessions and parameters\<close>

text \<open>
  The remote calls, each with the answer of the control plane. \<open>Datastore_Path\<close> (the
  datastore path string of a file) and \<open>NewKey\<close> (the device key the library gives a new
  controller) are library results that the package only passes on.
\<close>

record vsphere_api =
  DefaultDatacenter :: "Finder \<Rightarrow> govmomi_error + Datacenter"
  FinderNetwork :: "Finder \<Rightarrow> string \<Rightarrow> govmomi_error + Network"
  EthernetCardBackingInfo :: "Network \<Rightarrow> govmomi_error + EthernetCardBacking"
  FinderDatastore :: "Finder \<Rightarrow> string \<Rightarrow> govmomi_error + Datastore"
  FinderClusterComputeResource :: "Finder \<Rightarrow> string \<Rightarrow> govmomi_error + ClusterComputeResource"
  FinderVirtualMachine :: "Finder \<Rightarrow> string \<Rightarrow> govmomi_error + object_VirtualMachine"
  Folders :: "Datacenter \<Rightarrow> govmomi_error + DatacenterFolders"
  ClusterResourcePool :: "ClusterComputeResource \<Rightarrow> govmomi_error + ResourcePool"
  FolderCreateVM :: "Folder \<Rightarrow> VirtualMachineConfigSpec \<Rightarrow> ResourcePool \<Rightarrow> govmomi_error + Task"
  TaskWait :: "Task \<Rightarrow> govmomi_error option"
  Datastore_Path :: "Datastore \<Rightarrow> string \<Rightarrow> string"
  NewKey :: "32 word"

text \<open>
  The session-cached values of \<open>Session\<close>. The fields \<open>client\<close> and \<open>ctx\<close> are the handles
  every remote call goes through; the record \<open>vsphere_api\<close> stands for them.
\<close>

record vsphere_Session =
  datacenter :: "Datacenter option"
  finder :: "Finder option"

record VirtualMachineCreationParams =
  BuildkiteAgentToken :: string
  ClusterPath :: string
  VirtualMachinePath :: string
  DatastoreName :: string
  Params_GuestID :: string
  MemoryMB :: "64 word"
  Name :: string
  NetworkLabel :: string
  NumCPUs :: "32 word"
  NumCoresPerSocket :: "32 word"
  SrcDiskDataStore :: string
  SrcDiskPath :: string
  GuestInfo :: "(string \<times> string) list"

text \<open>
  \<open>GuestInfo\<close> is a Go map. It is given as the list of its entries in the order in which
  the \<open>range\<close> statement visits them, an order the language leaves open. A \<open>nil\<close> map is
  the empty list: the test for \<open>nil\<close> guards a loop that would not run on it anyway.
\<close>

text \<open>The struct \<open>VirtualMachine\<close>, by the fields its literal sets besides the session.\<close>

record VirtualMachine =
  mo :: object_VirtualMachine
  VirtualMachine_Name :: string

text \<open>\<open>NewSession\<close> starts from a session with nothing cached.\<close>

definition emptySession :: vsphere_Session where
  "emptySession = \<lparr>datacenter = None, finder = None\<rparr>"

subsection \<open>getFinder and vmFolder\<close>

definition getFinder :: "vsphere_api \<Rightarrow> vsphere_Session \<Rightarrow> (error + Finder) \<times> vsphere_Session" where
  "getFinder api vs =
     (case finder vs of
        None \<Rightarrow>
          (case DefaultDatacenter api NewFinder of
             Inl err \<Rightarrow> (Inl (Govmomi err), vs)
           | Inr dc \<Rightarrow>
               (let f = SetDatacenter NewFinder dc;
                    vs' = vs\<lparr>datacenter := Some dc, finder := Some f\<rparr>
                in (Inr f, vs')))
      | Some f \<Rightarrow> (Inr f, vs))"

definition vmFolder :: "vsphere_api \<Rightarrow> vsphere_Session \<Rightarrow> error + Folder" where
  "vmFolder api vs =
     (case datacenter vs of
        None \<Rightarrow> Inl (ErrorsNew ''datacenter not loaded'')
      | Some dc \<Rightarrow>
          (case Folders api dc of
             Inl err \<Rightarrow> Inl (Govmomi err)
           | Inr dcFolders \<Rightarrow> Inr (VmFolder dcFolders)))"

subsection \<open>The library's helpers on device lists\<close>

text \<open>
  \<open>object.EthernetCardTypes().CreateEthernetCard("vmxnet3", backing)\<close>: the name is one
  of the library's card types, so the call answers with a fresh card of that type
  carrying the backing.
\<close>

definition CreateEthernetCard_vmxnet3 :: "EthernetCardBacking \<Rightarrow> govmomi_error + VirtualVmxnet3" where
  "CreateEthernetCard_vmxnet3 backing = Inr \<lparr>CardBacking = Some backing, AddressType = []\<rparr>"

text \<open>
  \<open>object.SCSIControllerTypes().CreateSCSIController("scsi")\<close>: the name \<open>scsi\<close> stands
  for the library's first controller type; the call answers with a fresh controller of
  that type, with a new key and no device attached.
\<close>

definition CreateSCSIController_scsi :: "vsphere_api \<Rightarrow> govmomi_error + VirtualLsiLogicController" where
  "CreateSCSIController_scsi api = Inr \<lparr>Controller_Key = NewKey api, Controller_Device = []\<rparr>"

text \<open>
  \<open>devices.FindDiskController("scsi")\<close> picks the first SCSI controller of the list that
  has fewer than 15 devices attached, and fails when there is none.
\<close>

fun SelectSCSI :: "VirtualDeviceList \<Rightarrow> VirtualLsiLogicController list" where
  "SelectSCSI [] = []"
| "SelectSCSI (SCSIController c # l) = c # SelectSCSI l"
| "SelectSCSI (d # l) = SelectSCSI l"

definition FindDiskController_scsi :: "VirtualDeviceList \<Rightarrow> govmomi_error + VirtualLsiLogicController" where
  "FindDiskController_scsi l =
     (case filter (\<lambda>c. length (Controller_Device c) < 15) (SelectSCSI l) of
        [] \<Rightarrow> Inl (OtherError ''no available SCSI controller'')
      | c # cs \<Rightarrow> Inr c)"

text \<open>
  \<open>filepath.Ext\<close>: the suffix of the last path element that starts at its last dot,
  empty when that element has no dot.
\<close>

definition Ext :: "string \<Rightarrow> string" where
  "Ext path =
     (let base = takeWhile (\<lambda>c. c \<noteq> CHR ''/'') (rev path) in
      if CHR ''.'' \<in> set base
      then CHR ''.'' # rev (takeWhile (\<lambda>c. c \<noteq> CHR ''.'') base)
      else [])"

text \<open>
  \<open>devices.CreateDisk(controller, ds, name)\<close>: a disk on a flat backing for the named
  file (a name without the extension \<open>.vmdk\<close> gets it), persistent and thin-provisioned
  at first, assigned to the controller by the controller's key.
\<close>

definition CreateDisk ::
    "VirtualLsiLogicController \<Rightarrow> ManagedObjectReference \<Rightarrow> string \<Rightarrow> VirtualDisk" where
  "CreateDisk c ds name =
     \<lparr>ControllerKey = Controller_Key c,
      Backing = \<lparr>FileName = (if name \<noteq> [] \<and> Ext name \<noteq> ''.vmdk'' then name @ ''.vmdk'' else name),
                 BackingDatastore = Some ds,
                 DiskMode = ''persistent'',
                 ThinProvisioned = Some True\<rparr>\<rparr>"

text \<open>
  \<open>devices.ConfigSpec(types.VirtualDeviceConfigSpecOperationAdd)\<close>: one device change
  per device, in the order of the list; the call has no failing path.
\<close>

definition ConfigSpec_add :: "VirtualDeviceList \<Rightarrow> govmomi_error + VirtualDeviceConfigSpec list" where
  "ConfigSpec_add l = Inr (map (\<lambda>d. \<lparr>Device = d, Operation = ''add''\<rparr>) l)"

subsection \<open>The steps of the device list\<close>

definition addEthernet ::
    "vsphere_api \<Rightarrow> vsphere_Session \<Rightarrow> VirtualDeviceList \<Rightarrow> string
       \<Rightarrow> (error + VirtualDeviceList) \<times> vsphere_Session" where
  "addEthernet api vs devices label =
     (case getFinder api vs of
        (Inl err, vs') \<Rightarrow> (Inl err, vs')
      | (Inr f, vs') \<Rightarrow>
          (let path = ''*'' @ label in
           case FinderNetwork api f path of
             Inl err \<Rightarrow> (Inl (Govmomi err), vs')
           | Inr network \<Rightarrow>
               (case EthernetCardBackingInfo api network of
                  Inl err \<Rightarrow> (Inl (Govmomi err), vs')
                | Inr backing \<Rightarrow>
                    (case CreateEthernetCard_vmxnet3 backing of
                       Inl err \<Rightarrow> (Inl (Govmomi err), vs')
                     | Inr device \<Rightarrow>
                         (Inr (devices @ [Vmxnet3 (device\<lparr>AddressType := ''generated''\<rparr>)]), vs')))))"

definition addSCSI :: "vsphere_api \<Rightarrow> VirtualDeviceList \<Rightarrow> error + VirtualDeviceList" where
  "addSCSI api devices =
     (case CreateSCSIController_scsi api of
        Inl err \<Rightarrow> Inl (Govmomi err)
      | Inr scsi \<Rightarrow> Inr (devices @ [SCSIController scsi]))"

definition addDisk ::
    "vsphere_api \<Rightarrow> vsphere_Session \<Rightarrow> VirtualDeviceList \<Rightarrow> VirtualMachineCreationParams
       \<Rightarrow> (error + VirtualDeviceList) \<times> vsphere_Session" where
  "addDisk api vs devices params =
     (case getFinder api vs of
        (Inl err, vs') \<Rightarrow> (Inl err, vs')
      | (Inr f, vs') \<Rightarrow>
          (case FinderDatastore api f (SrcDiskDataStore params) of
             Inl err \<Rightarrow> (Inl (Govmomi err), vs')
           | Inr diskDatastore \<Rightarrow>
               (case FindDiskController_scsi devices of
                  Inl err \<Rightarrow> (Inl (Govmomi err), vs')
                | Inr controller \<Rightarrow>
                    (let disk = CreateDisk controller (Datastore_Reference diskDatastore)
                                  (Datastore_Path api diskDatastore (SrcDiskPath params));
                         backing = (Backing disk)\<lparr>ThinProvisioned := Some True,
                                                   DiskMode := ''independent_nonpersistent''\<rparr>
                     in (Inr (devices @ [Disk (disk\<lparr>Backing := backing\<rparr>)]), vs')))))"

definition addUSB :: "VirtualDeviceList \<Rightarrow> error + VirtualDeviceList" where
  "addUSB devices =
     (let t = True;
          usb = \<lparr>AutoConnectDevices = Some t, EhciEnabled = Some t\<rparr>
      in Inr (devices @ [USBController usb]))"

subsection \<open>createConfigSpec\<close>

text \<open>The loop over \<open>params.GuestInfo\<close>, appending to the extra configuration.\<close>

fun guestInfoLoop :: "(string \<times> string) list \<Rightarrow> OptionValue list \<Rightarrow> OptionValue list" where
  "guestInfoLoop [] extraConfig = extraConfig"
| "guestInfoLoop ((key, val) # rest) extraConfig =
     guestInfoLoop rest (extraConfig @ [\<lparr>Key = ''guestinfo.'' @ key, Value = val\<rparr>])"

text \<open>The extra configuration as it stands when the pci slot entry has been appended.\<close>

definition buildExtraConfig :: "VirtualMachineCreationParams \<Rightarrow> OptionValue list" where
  "buildExtraConfig params =
     (let extraConfig =
            [\<lparr>Key = ''guestinfo.vmkite-buildkite-agent-token'', Value = BuildkiteAgentToken params\<rparr>,
             \<lparr>Key = ''guestinfo.vmkite-name'', Value = Name params\<rparr>,
             \<lparr>Key = ''guestinfo.vmkite-vmdk'', Value = SrcDiskPath params\<rparr>];
          extraConfig = guestInfoLoop (GuestInfo params) extraConfig
      in extraConfig @ [\<lparr>Key = ''ethernet0.pciSlotNumber'', Value = ''32''\<rparr>])"

definition createConfigSpec ::
    "vsphere_api \<Rightarrow> vsphere_Session \<Rightarrow> VirtualMachineCreationParams
       \<Rightarrow> (error + VirtualMachineConfigSpec) \<times> vsphere_Session" where
  "createConfigSpec api vs params =
     (case addEthernet api vs [] (NetworkLabel params) of
        (Inl err, vs1) \<Rightarrow> (Inl err, vs1)
      | (Inr devices1, vs1) \<Rightarrow>
     (case addSCSI api devices1 of
        Inl err \<Rightarrow> (Inl err, vs1)
      | Inr devices2 \<Rightarrow>
     (case addDisk api vs1 devices2 params of
        (Inl err, vs2) \<Rightarrow> (Inl err, vs2)
      | (Inr devices3, vs2) \<Rightarrow>
     (case addUSB devices3 of
        Inl err \<Rightarrow> (Inl err, vs2)
      | Inr devices4 \<Rightarrow>
     (case ConfigSpec_add devices4 of
        Inl err \<Rightarrow> (Inl (Govmomi err), vs2)
      | Inr deviceChange \<Rightarrow>
     (let extraConfig = buildExtraConfig params in
      case getFinder api vs2 of
        (Inl err, vs3) \<Rightarrow> (Inl err, vs3)
      | (Inr f, vs3) \<Rightarrow>
     (case FinderDatastore api f (DatastoreName params) of
        Inl err \<Rightarrow> (Inl (Govmomi err), vs3)
      | Inr ds \<Rightarrow>
         (let fileInfo = \<lparr>VmPathName = ''['' @ Datastore_Name ds @ '']''\<rparr>;
              t = True
          in (Inr \<lparr>DeviceChange = deviceChange,
                   ExtraConfig = extraConfig,
                   Files = fileInfo,
                   GuestId = Params_GuestID params,
                   Spec_MemoryMB = MemoryMB params,
                   Spec_Name = Name params,
                   NestedHVEnabled = Some t,
                   Spec_NumCPUs = NumCPUs params,
                   Spec_NumCoresPerSocket = NumCoresPerSocket params,
                   VirtualICH7MPresent = Some t,
                   VirtualSMCPresent = Some t\<rparr>, vs3)))))))))"

subsection \<open>VirtualMachine and CreateVM\<close>

definition VirtualMachine ::
    "vsphere_api \<Rightarrow> vsphere_Session \<Rightarrow> string \<Rightarrow> (error + VirtualMachine) \<times> vsphere_Session" where
  "VirtualMachine api vs path =
     (case getFinder api vs of
        (Inl err, vs') \<Rightarrow> (Inl err, vs')
      | (Inr f, vs') \<Rightarrow>
          (case FinderVirtualMachine api f path of
             Inl err \<Rightarrow> (Inl (Govmomi err), vs')
           | Inr vm \<Rightarrow> (Inr \<lparr>mo = vm, VirtualMachine_Name = object_Name vm\<rparr>, vs')))"

definition CreateVM ::
    "vsphere_api \<Rightarrow> vsphere_Session \<Rightarrow> VirtualMachineCreationParams
       \<Rightarrow> (error + VirtualMachine) \<times> vsphere_Session" where
  "CreateVM api vs params =
     (case getFinder api vs of
        (Inl err, vs1) \<Rightarrow> (Inl err, vs1)
      | (Inr f, vs1) \<Rightarrow>
     (case vmFolder api vs1 of
        Inl err \<Rightarrow> (Inl err, vs1)
      | Inr folder \<Rightarrow>
     (case FinderClusterComputeResource api f (ClusterPath params) of
        Inl err \<Rightarrow> (Inl (Govmomi err), vs1)
      | Inr cluster \<Rightarrow>
     (case ClusterResourcePool api cluster of
        Inl err \<Rightarrow> (Inl (Govmomi err), vs1)
      | Inr resourcePool \<Rightarrow>
     (case createConfigSpec api vs1 params of
        (Inl err, vs2) \<Rightarrow> (Inl err, vs2)
      | (Inr configSpec, vs2) \<Rightarrow>
     (case FolderCreateVM api folder configSpec resourcePool of
        Inl err \<Rightarrow> (Inl (Govmomi err), vs2)
      | Inr task \<Rightarrow>
     (case TaskWait api task of
        Some err \<Rightarrow> (Inl (Govmomi err), vs2)
      | None \<Rightarrow> VirtualMachine api vs2 (InventoryPath folder @ ''/'' @ Name params))))))))"

text \<open>
  The sessions the package can hold: the one \<open>NewSession\<close> starts from, and any session
  left behind by one of the methods.
\<close>

inductive reachable :: "vsphere_Session \<Rightarrow> bool" where
  reachable_new: "reachable emptySession"
| reachable_getFinder: "reachable vs \<Longrightarrow> reachable (snd (getFinder api vs))"
| reachable_VirtualMachine: "reachable vs \<Longrightarrow> reachable (snd (VirtualMachine api vs path))"
| reachable_CreateVM: "reachable vs \<Longrightarrow> reachable (snd (CreateVM api vs params))"


section \<open>Notions used to state the properties\<close>

subsection \<open>The codec and the job source\<close>

text \<open>
  A rule matches a key when it splits in two at its first separator and the first part
  is the key. \<open>firstValue\<close> is the value of the first matching rule of a sequence, as the
  specification words the behaviour on duplicate keys; \<open>lastValue\<close> is the value of the
  last matching rule. Both are empty when no rule matches.
\<close>

definition ruleMatches :: "string \<Rightarrow> string \<Rightarrow> bool" where
  "ruleMatches key r = (length (SplitN2 r) = 2 \<and> SplitN2 r ! 0 = key)"

definition firstValue :: "string \<Rightarrow> string list \<Rightarrow> string" where
  "firstValue key rules =
     (case find (ruleMatches key) rules of None \<Rightarrow> [] | Some r \<Rightarrow> SplitN2 r ! 1)"

definition lastValue :: "string \<Rightarrow> string list \<Rightarrow> string" where
  "lastValue key rules = firstValue key (rev rules)"

text \<open>An intent is complete when both of its fields are non-empty.\<close>

definition complete :: "VmkiteMetadata \<Rightarrow> bool" where
  "complete metadata = (VMDK metadata \<noteq> [] \<and> GuestID metadata \<noteq> [])"

text \<open>
  \<open>surfaced js\<close> lists, in order, the identifier and the decoded metadata of those jobs
  of \<open>js\<close> whose metadata is complete; \<open>summary\<close> is the same view of a result list.
\<close>

definition surfaced :: "Job list \<Rightarrow> (string option \<times> VmkiteMetadata) list" where
  "surfaced js =
     map (\<lambda>job. (Job_ID job, parseAgentQueryRules (AgentQueryRules job)))
       (filter (\<lambda>job. complete (parseAgentQueryRules (AgentQueryRules job))) js)"

definition summary :: "VmkiteJob list \<Rightarrow> (string option \<times> VmkiteMetadata) list" where
  "summary jobs = map (\<lambda>j. (Some (ID j), Metadata j)) jobs"

text \<open>The scenario of a build with one complete and one incomplete job.\<close>

definition scenario_build :: Build where
  "scenario_build =
     \<lparr>Build_Number = Some 42, Build_Pipeline = Some \<lparr>Slug = Some ''macos''\<rparr>,
      Build_Jobs =
        [\<lparr>Job_ID = Some ''job-1'', Job_State = Some ''scheduled'',
          AgentQueryRules = [''vmkite-vmdk=/images/macos.vmdk'',
                             ''vmkite-guestid=darwin19_64Guest'', ''other=ignored'']\<rparr>,
         \<lparr>Job_ID = Some ''job-2'', Job_State = Some ''passed'',
          AgentQueryRules = [''vmkite-vmdk=/images/macos.vmdk'']\<rparr>]\<rparr>"

definition scenario_session :: buildkite_Session where
  "scenario_session =
     \<lparr>Org = ''acme'',
      client = \<lparr>Builds_ListByOrg = (\<lambda>org states. Inr [scenario_build]),
                Builds_Get = (\<lambda>org pipeline number. Inr scenario_build)\<rparr>\<rparr>"

definition scenario_job :: "string \<Rightarrow> VmkiteJob" where
  "scenario_job jid =
     \<lparr>ID = jid, BuildNumber = ''42'', Pipeline = ''macos'',
      Metadata = \<lparr>VMDK = ''/images/macos.vmdk'', GuestID = ''darwin19_64Guest''\<rparr>\<rparr>"

subsection \<open>The session\<close>

text \<open>The login requests among the events of a trace, in order.\<close>

definition loginRequests :: "event list \<Rightarrow> (string \<times> string) list" where
  "loginRequests trace =
     concat (map (\<lambda>e. case e of LoginRequest u p \<Rightarrow> [(u, p)] | Debugf fmt args \<Rightarrow> []) trace)"

text \<open>The cached fields go together: a session with a finder has a datacenter.\<close>

definition cache_ok :: "vsphere_Session \<Rightarrow> bool" where
  "cache_ok vs = (finder vs \<noteq> None \<longrightarrow> datacenter vs \<noteq> None)"

text \<open>A control plane on which every call succeeds, and parameters for one machine.\<close>

definition demo_api :: vsphere_api where
  "demo_api =
     \<lparr>DefaultDatacenter = (\<lambda>f. Inr (Datacenter ''datacenter-2'')),
      FinderNetwork = (\<lambda>f path. Inr (Network ''network-7'')),
      EthernetCardBackingInfo = (\<lambda>n. Inr (EthernetCardBacking ''VM Network'')),
      FinderDatastore =
        (\<lambda>f name. Inr \<lparr>Datastore_Name = name, Datastore_Reference = ''datastore-5''\<rparr>),
      FinderClusterComputeResource = (\<lambda>f path. Inr (ClusterComputeResource ''domain-c9'')),
      FinderVirtualMachine = (\<lambda>f path. Inr \<lparr>object_Name = ''vmkite-1''\<rparr>),
      Folders = (\<lambda>dc. Inr \<lparr>VmFolder = \<lparr>InventoryPath = ''/dc/vm''\<rparr>\<rparr>),
      ClusterResourcePool = (\<lambda>c. Inr (ResourcePool ''resgroup-3'')),
      FolderCreateVM = (\<lambda>folder spec pool. Inr (Task ''task-1'')),
      TaskWait = (\<lambda>task. None),
      Datastore_Path = (\<lambda>ds path. ''['' @ Datastore_Name ds @ ''] '' @ path),
      NewKey = - 201\<rparr>"

definition demo_params :: VirtualMachineCreationParams where
  "demo_params =
     \<lparr>BuildkiteAgentToken = ''token'',
      ClusterPath = ''/dc/host/cluster'',
      VirtualMachinePath = ''/dc/vm'',
      DatastoreName = ''vms'',
      Params_GuestID = ''darwin19_64Guest'',
      MemoryMB = 4096,
      Name = ''vmkite-1'',
      NetworkLabel = ''dvPortGroup-xyz'',
      NumCPUs = 4,
      NumCoresPerSocket = 1,
      SrcDiskDataStore = ''images'',
      SrcDiskPath = ''/vol/base.vmdk'',
      GuestInfo = [(''vmkite-guestid'', ''darwin19_64Guest'')]\<rparr>"

definition demo_session :: vsphere_Session where
  "demo_session =
     \<lparr>datacenter = Some (Datacenter ''datacenter-2''),
      finder = Some \<lparr>Finder_dc = Some (Datacenter ''datacenter-2'')\<rparr>\<rparr>"

definition demo_credentials :: ConnectionParams where
  "demo_credentials =
     \<lparr>Host = ''vcenter.example'', User = ''ci'', Pass = ''secret'', Insecure = False\<rparr>"

text \<open>A control plane whose session has expired and which refuses the new login.\<close>

definition expired_api :: session_api where
  "expired_api =
     \<lparr>GetCurrentTime = Some (SoapFault (Some NotAuthenticated)),
      ClientLogin = (\<lambda>u p. Some (OtherError ''denied''))\<rparr>"

text \<open>A control plane that does not answer the probe.\<close>

definition unreachable_api :: session_api where
  "unreachable_api =
     \<lparr>GetCurrentTime = Some (OtherError ''timeout''),
      ClientLogin = (\<lambda>u p. None)\<rparr>"

text \<open>A control plane without a default datacenter.\<close>

definition no_datacenter_api :: vsphere_api where
  "no_datacenter_api =
     demo_api\<lparr>DefaultDatacenter := (\<lambda>f. Inl (OtherError ''default datacenter not found''))\<rparr>"

text \<open>The device list and the specification built for \<open>demo_params\<close> on \<open>demo_api\<close>.\<close>

definition demo_controller :: VirtualLsiLogicController where
  "demo_controller = \<lparr>Controller_Key = - 201, Controller_Device = []\<rparr>"

definition demo_disk :: VirtualDisk where
  "demo_disk =
     \<lparr>ControllerKey = - 201,
      Backing = \<lparr>FileName = ''[images] /vol/base.vmdk'',
                 BackingDatastore = Some ''datastore-5'',
                 DiskMode = ''independent_nonpersistent'',
                 ThinProvisioned = Some True\<rparr>\<rparr>"

definition demo_devices :: VirtualDeviceList where
  "demo_devices =
     [Vmxnet3 \<lparr>CardBacking = Some (EthernetCardBacking ''VM Network''),
               AddressType = ''generated''\<rparr>,
      SCSIController demo_controller,
      Disk demo_disk,
      USBController \<lparr>AutoConnectDevices = Some True, EhciEnabled = Some True\<rparr>]"

definition demo_spec :: VirtualMachineConfigSpec where
  "demo_spec =
     \<lparr>DeviceChange = map (\<lambda>d. \<lparr>Device = d, Operation = ''add''\<rparr>) demo_devices,
      ExtraConfig =
        [\<lparr>Key = ''guestinfo.vmkite-buildkite-agent-token'', Value = ''token''\<rparr>,
         \<lparr>Key = ''guestinfo.vmkite-name'', Value = ''vmkite-1''\<rparr>,
         \<lparr>Key = ''guestinfo.vmkite-vmdk'', Value = ''/vol/base.vmdk''\<rparr>,
         \<lparr>Key = ''guestinfo.vmkite-guestid'', Value = ''darwin19_64Guest''\<rparr>,
         \<lparr>Key = ''ethernet0.pciSlotNumber'', Value = ''32''\<rparr>],
      Files = \<lparr>VmPathName = ''[vms]''\<rparr>,
      GuestId = ''darwin19_64Guest'',
      Spec_MemoryMB = 4096,
      Spec_Name = ''vmkite-1'',
      NestedHVEnabled = Some True,
      Spec_NumCPUs = 4,
      Spec_NumCoresPerSocket = 1,
      VirtualICH7MPresent = Some True,
      VirtualSMCPresent = Some True\<rparr>"

section \<open>Properties of the metadata codec\<close>

lemma SplitN2_no_sep: "CHR ''='' \<notin> set r \<Longrightarrow> SplitN2 r = [r]"
  by (simp add: SplitN2_def)

lemma SplitN2_sep:
  assumes "CHR ''='' \<notin> set k"
  shows "SplitN2 (k @ CHR ''='' # v) = [k, v]"
proof -
  from assms have k: "\<And>x. x \<in> set k \<Longrightarrow> x \<noteq> CHR ''=''" by auto
  have "takeWhile (\<lambda>c. c \<noteq> CHR ''='') (k @ CHR ''='' # v) = k"
    using k by simp
  moreover have "dropWhile (\<lambda>c. c \<noteq> CHR ''='') (k @ CHR ''='' # v) = CHR ''='' # v"
    using k by simp
  ultimately show ?thesis by (simp add: SplitN2_def)
qed

lemma parseRule_no_sep: "CHR ''='' \<notin> set r \<Longrightarrow> parseRule m r = m"
  by (simp add: parseRule_def SplitN2_no_sep)

lemma parseRule_sep:
  "CHR ''='' \<notin> set k \<Longrightarrow>
   parseRule m (k @ CHR ''='' # v) =
     (if k = ''vmkite-vmdk'' then m\<lparr>VMDK := v\<rparr>
      else if k = ''vmkite-guestid'' then m\<lparr>GuestID := v\<rparr> else m)"
  by (simp add: parseRule_def SplitN2_sep)

lemma parseLoop_append: "parseLoop m (xs @ ys) = parseLoop (parseLoop m xs) ys"
  by (induction xs arbitrary: m) simp_all

lemma parseAgentQueryRules_snoc:
  "parseAgentQueryRules (rules @ [r]) = parseRule (parseAgentQueryRules rules) r"
  by (simp add: parseAgentQueryRules_def parseLoop_append)

lemma parseAgentQueryRules_skip:
  "parseRule (parseAgentQueryRules xs) r = parseAgentQueryRules xs \<Longrightarrow>
   parseAgentQueryRules (xs @ r # ys) = parseAgentQueryRules (xs @ ys)"
  by (simp add: parseAgentQueryRules_def parseLoop_append)

text \<open>
  C8. A rule is cut at its first \<open>=\<close> only: for a key \<open>k\<close> without \<open>=\<close> and any value
  \<open>v\<close>, which may itself contain \<open>=\<close>, decoding the rule \<open>k=v\<close> after the rules before it
  sets the disk image to \<open>v\<close> when \<open>k\<close> is \<open>vmkite-vmdk\<close>, the guest identity to \<open>v\<close> when
  \<open>k\<close> is \<open>vmkite-guestid\<close>, and changes nothing for any other key. A rule without \<open>=\<close>
  and a rule with an unrecognized key can be removed from a sequence without changing
  what is decoded. The decoder has no failing path: it is a total function.
\<close>

theorem parseAgentQueryRules_rule_format:
  "(CHR ''='' \<notin> set k \<longrightarrow>
      parseAgentQueryRules (rules @ [k @ CHR ''='' # v]) =
        (if k = ''vmkite-vmdk'' then (parseAgentQueryRules rules)\<lparr>VMDK := v\<rparr>
         else if k = ''vmkite-guestid'' then (parseAgentQueryRules rules)\<lparr>GuestID := v\<rparr>
         else parseAgentQueryRules rules)) \<and>
   (CHR ''='' \<notin> set r \<longrightarrow>
      parseAgentQueryRules (xs @ r # ys) = parseAgentQueryRules (xs @ ys)) \<and>
   (CHR ''='' \<notin> set k \<and> k \<noteq> ''vmkite-vmdk'' \<and> k \<noteq> ''vmkite-guestid'' \<longrightarrow>
      parseAgentQueryRules (xs @ (k @ CHR ''='' # v) # ys) = parseAgentQueryRules (xs @ ys))"
proof (intro conjI impI)
  assume "CHR ''='' \<notin> set k"
  then show "parseAgentQueryRules (rules @ [k @ CHR ''='' # v]) =
        (if k = ''vmkite-vmdk'' then (parseAgentQueryRules rules)\<lparr>VMDK := v\<rparr>
         else if k = ''vmkite-guestid'' then (parseAgentQueryRules rules)\<lparr>GuestID := v\<rparr>
         else parseAgentQueryRules rules)"
    by (simp add: parseAgentQueryRules_snoc parseRule_sep)
next
  assume "CHR ''='' \<notin> set r"
  then show "parseAgentQueryRules (xs @ r # ys) = parseAgentQueryRules (xs @ ys)"
    by (intro parseAgentQueryRules_skip parseRule_no_sep)
next
  assume "CHR ''='' \<notin> set k \<and> k \<noteq> ''vmkite-vmdk'' \<and> k \<noteq> ''vmkite-guestid''"
  then show "parseAgentQueryRules (xs @ (k @ CHR ''='' # v) # ys) =
      parseAgentQueryRules (xs @ ys)"
    by (intro parseAgentQueryRules_skip) (simp add: parseRule_sep)
qed

theorem parseAgentQueryRules_rule_format_witness:
  "parseAgentQueryRules ([] @ [''vmkite-vmdk'' @ CHR ''='' # ''/a=b.vmdk'']) =
     \<lparr>VMDK = ''/a=b.vmdk'', GuestID = []\<rparr> \<and>
   parseAgentQueryRules ([''vmkite-guestid=g''] @ ''noequals'' # [''vmkite-vmdk=d'']) =
     parseAgentQueryRules ([''vmkite-guestid=g''] @ [''vmkite-vmdk=d'']) \<and>
   parseAgentQueryRules ([''vmkite-guestid=g''] @ (''other'' @ CHR ''='' # ''ignored'') # []) =
     parseAgentQueryRules ([''vmkite-guestid=g''] @ [])"
  using parseAgentQueryRules_rule_format
          [of "''vmkite-vmdk''" "[]" "''/a=b.vmdk''" "''noequals''" "[''vmkite-guestid=g'']"
              "[''vmkite-vmdk=d'']"]
        parseAgentQueryRules_rule_format
          [of "''other''" "[]" "''ignored''" "''x''" "[''vmkite-guestid=g'']" "[]"]
  by (simp add: parseAgentQueryRules_def)

lemma parseRule_VMDK:
  "VMDK (parseRule m r) = (if ruleMatches ''vmkite-vmdk'' r then SplitN2 r ! 1 else VMDK m)"
  by (simp add: parseRule_def ruleMatches_def Let_def)

lemma parseRule_GuestID:
  "GuestID (parseRule m r) =
     (if ruleMatches ''vmkite-guestid'' r then SplitN2 r ! 1 else GuestID m)"
  by (simp add: parseRule_def ruleMatches_def Let_def)

lemma lastValue_snoc:
  "lastValue key (rules @ [r]) =
     (if ruleMatches key r then SplitN2 r ! 1 else lastValue key rules)"
  by (simp add: lastValue_def firstValue_def)

lemma vmdkFromAgentQueryRules_first:
  "vmdkFromAgentQueryRules rules = firstValue ''vmkite-vmdk'' rules"
  by (induction rules) (simp_all add: firstValue_def ruleMatches_def Let_def)

text \<open>
  C3, as amended. For every sequence of rules, the decoded value of a recognized key is
  the value of the last rule of the sequence whose key matches, and is empty when no
  rule matches: on duplicate keys the last occurrence wins.
\<close>

theorem parseAgentQueryRules_last_wins:
  "VMDK (parseAgentQueryRules rules) = lastValue ''vmkite-vmdk'' rules \<and>
   GuestID (parseAgentQueryRules rules) = lastValue ''vmkite-guestid'' rules"
proof (induction rules rule: rev_induct)
  case Nil
  show ?case by (simp add: parseAgentQueryRules_def lastValue_def firstValue_def)
next
  case (snoc r rules)
  then show ?case
    by (simp only: parseAgentQueryRules_snoc parseRule_VMDK parseRule_GuestID lastValue_snoc)
qed

text \<open>
  C3, as stated, fails: with the disk image given twice, the first rule's value is \<open>a\<close>
  and the decoded value is \<open>b\<close>.
\<close>

theorem parseAgentQueryRules_first_wins_counterexample:
  "firstValue ''vmkite-vmdk'' [''vmkite-vmdk=a'', ''vmkite-vmdk=b''] = ''a'' \<and>
   VMDK (parseAgentQueryRules [''vmkite-vmdk=a'', ''vmkite-vmdk=b'']) = ''b'' \<and>
   VMDK (parseAgentQueryRules [''vmkite-vmdk=a'', ''vmkite-vmdk=b'']) \<noteq>
     firstValue ''vmkite-vmdk'' [''vmkite-vmdk=a'', ''vmkite-vmdk=b'']"
  by (simp add: parseAgentQueryRules_def parseRule_def SplitN2_def firstValue_def
      ruleMatches_def)

theorem parseAgentQueryRules_last_wins_witness:
  "VMDK (parseAgentQueryRules [''vmkite-vmdk=a'', ''x=y'', ''vmkite-vmdk=b'']) = ''b'' \<and>
   GuestID (parseAgentQueryRules [''vmkite-vmdk=a'', ''x=y'', ''vmkite-vmdk=b'']) = []"
  using parseAgentQueryRules_last_wins [of "[''vmkite-vmdk=a'', ''x=y'', ''vmkite-vmdk=b'']"]
  by (simp add: lastValue_def firstValue_def ruleMatches_def SplitN2_def)

section \<open>Properties of the job source\<close>

lemma jobsLoop_Inr:
  "jobsLoop build js acc = Inr out \<Longrightarrow> summary out = summary acc @ surfaced js"
proof (induction js arbitrary: acc)
  case Nil
  then show ?case by (simp add: surfaced_def)
next
  case (Cons job rest)
  show ?case
  proof (cases "complete (parseAgentQueryRules (AgentQueryRules job))")
    case False
    with Cons.prems have "jobsLoop build rest acc = Inr out"
      by (auto simp: complete_def)
    from Cons.IH[OF this] False show ?thesis by (simp add: surfaced_def)
  next
    case True
    with Cons.prems obtain jid n slug where
      j: "Job_ID job = Some jid" and
      r: "jobsLoop build rest
           (acc @ [\<lparr>ID = jid, BuildNumber = Itoa n, Pipeline = slug,
                    Metadata = parseAgentQueryRules (AgentQueryRules job)\<rparr>]) = Inr out"
      by (auto simp: complete_def Let_def split: option.splits)
    from Cons.IH[OF r] True j show ?thesis by (simp add: surfaced_def summary_def)
  qed
qed

lemma buildsLoop_Inr:
  "buildsLoop builds acc = Inr out \<Longrightarrow>
   summary out = summary acc @ surfaced (concat (map Build_Jobs builds))"
proof (induction builds arbitrary: acc)
  case Nil
  then show ?case by (simp add: surfaced_def)
next
  case (Cons build builds)
  from Cons.prems obtain mid where
    m: "jobsLoop build (Build_Jobs build) acc = Inr mid" and
    r: "buildsLoop builds mid = Inr out"
    by (auto split: sum.splits)
  from jobsLoop_Inr[OF m] Cons.IH[OF r] show ?case
    by (simp add: surfaced_def)
qed

lemma surfaced_complete: "(i, m) \<in> set (surfaced js) \<Longrightarrow> complete m"
  by (auto simp: surfaced_def)

lemma scenario_VmkiteJobs: "VmkiteJobs scenario_session = Inr [scenario_job ''job-1'']"
  by (simp add: VmkiteJobs_def scenario_session_def scenario_build_def scenario_job_def
      parseAgentQueryRules_def parseRule_def SplitN2_def Itoa_def)

text \<open>
  C1. When \<open>VmkiteJobs\<close> returns a list, every job of the list has a non-empty disk
  image and a non-empty guest identity, and the list holds, in the order of the builds
  and of their jobs, exactly the jobs whose decoded rules are complete: a job whose
  metadata lacks either field is not in it.
\<close>

theorem VmkiteJobs_complete_intent:
  assumes "VmkiteJobs bk = Inr jobs"
  shows "(\<forall>j \<in> set jobs. VMDK (Metadata j) \<noteq> [] \<and> GuestID (Metadata j) \<noteq> []) \<and>
         (\<exists>builds.
            Builds_ListByOrg (client bk) (Org bk) [''scheduled'', ''running''] = Inr builds \<and>
            summary jobs = surfaced (concat (map Build_Jobs builds)))"
proof -
  from assms obtain builds where
    l: "Builds_ListByOrg (client bk) (Org bk) [''scheduled'', ''running''] = Inr builds" and
    b: "buildsLoop builds [] = Inr jobs"
    by (auto simp: VmkiteJobs_def split: sum.splits)
  from buildsLoop_Inr[OF b] have s: "summary jobs = surfaced (concat (map Build_Jobs builds))"
    by (simp add: summary_def)
  have "VMDK (Metadata j) \<noteq> [] \<and> GuestID (Metadata j) \<noteq> []" if "j \<in> set jobs" for j
  proof -
    from that have "(Some (ID j), Metadata j) \<in> set (summary jobs)"
      by (auto simp: summary_def)
    with s have "complete (Metadata j)" by (auto dest: surfaced_complete)
    then show ?thesis by (simp add: complete_def)
  qed
  with l s show ?thesis by blast
qed

theorem VmkiteJobs_complete_intent_witness:
  "VmkiteJobs scenario_session = Inr [scenario_job ''job-1''] \<and>
   VMDK (Metadata (scenario_job ''job-1'')) \<noteq> [] \<and>
   GuestID (Metadata (scenario_job ''job-1'')) \<noteq> [] \<and>
   summary [scenario_job ''job-1''] = surfaced (Build_Jobs scenario_build)"
  using VmkiteJobs_complete_intent [OF scenario_VmkiteJobs] scenario_VmkiteJobs
  by (simp add: scenario_session_def)

lemma finishedLoop_find:
  "\<forall>j \<in> set js. Job_ID j \<noteq> None \<and> (Job_ID j = Some jid \<longrightarrow> Job_State j \<noteq> None) \<Longrightarrow>
   finishedLoop jid js =
     Inr (case find (\<lambda>j. Job_ID j = Some jid) js of
            None \<Rightarrow> False
          | Some j \<Rightarrow> Job_State j \<noteq> Some ''scheduled'' \<and> Job_State j \<noteq> Some ''running'')"
  by (induction js) auto

text \<open>
  C4. Let the build of a job be re-fetched, every job of the re-fetched build carry an
  identifier, and every job with the identifier looked for carry a state. Then
  \<open>IsFinished\<close> returns without error, and its answer is decided by the first job of the
  build with that identifier: false when its state is \<open>scheduled\<close> or \<open>running\<close>, true
  when it is in any other state, and false when the build has no job with that
  identifier.
\<close>

theorem IsFinished_first_match:
  assumes "Builds_Get (client bk) (Org bk) (Pipeline job) (BuildNumber job) = Inr build"
    and "\<forall>j \<in> set (Build_Jobs build).
           Job_ID j \<noteq> None \<and> (Job_ID j = Some (ID job) \<longrightarrow> Job_State j \<noteq> None)"
  shows "IsFinished bk job =
     Inr (case find (\<lambda>j. Job_ID j = Some (ID job)) (Build_Jobs build) of
            None \<Rightarrow> False
          | Some j \<Rightarrow> Job_State j \<noteq> Some ''scheduled'' \<and> Job_State j \<noteq> Some ''running'')"
  using assms by (simp add: IsFinished_def finishedLoop_find)

theorem IsFinished_first_match_witness:
  "IsFinished scenario_session (scenario_job ''job-1'') = Inr False \<and>
   IsFinished scenario_session (scenario_job ''job-2'') = Inr True \<and>
   IsFinished scenario_session (scenario_job ''job-3'') = Inr False"
  using IsFinished_first_match [of scenario_session "scenario_job ''job-1''" scenario_build]
    IsFinished_first_match [of scenario_session "scenario_job ''job-2''" scenario_build]
    IsFinished_first_match [of scenario_session "scenario_job ''job-3''" scenario_build]
  by (simp add: scenario_session_def scenario_job_def scenario_build_def)

section \<open>Properties of the session\<close>

subsection \<open>The keep-alive callback\<close>

lemma loginRequests_append: "loginRequests (a @ b) = loginRequests a @ loginRequests b"
  by (simp add: loginRequests_def)

text \<open>
  C7. The keep-alive callback returns no error, whatever the control plane answers. On
  a successful probe it does nothing else. On a probe failure that is a
  \<open>NotAuthenticated\<close> fault it issues exactly one login request, with the user name and
  the password of the connection parameters, and returns no error whether that login
  succeeds or fails. On any other probe failure it writes one line to the log and issues
  no login request.
\<close>

theorem keepAliveCallback_never_fails:
  "fst (keepAliveCallback api cp trace) = None \<and>
   (GetCurrentTime api = None \<longrightarrow> snd (keepAliveCallback api cp trace) = trace) \<and>
   (\<forall>gerr. GetCurrentTime api = Some gerr \<and> isNotAuthenticated (Govmomi gerr) \<longrightarrow>
      loginRequests (snd (keepAliveCallback api cp trace)) =
        loginRequests trace @ [(User cp, Pass cp)]) \<and>
   (\<forall>gerr. GetCurrentTime api = Some gerr \<and> \<not> isNotAuthenticated (Govmomi gerr) \<longrightarrow>
      snd (keepAliveCallback api cp trace) =
        trace @ [Debugf ''session keepalive error: %s'' [Govmomi gerr]])"
  by (auto simp: keepAliveCallback_def login_def Let_def loginRequests_append loginRequests_def
      split: option.splits prod.splits)

theorem keepAliveCallback_never_fails_witness:
  "keepAliveCallback expired_api demo_credentials [] =
     (None,
      [Debugf ''session keepalive error: %s'' [Govmomi (SoapFault (Some NotAuthenticated))],
       LoginRequest ''ci'' ''secret'',
       Debugf ''session keepalive failed to re-authenticate: %s''
         [Govmomi (OtherError ''denied'')]]) \<and>
   loginRequests (snd (keepAliveCallback expired_api demo_credentials [])) =
     [(''ci'', ''secret'')] \<and>
   keepAliveCallback unreachable_api demo_credentials [] =
     (None, [Debugf ''session keepalive error: %s'' [Govmomi (OtherError ''timeout'')]])"
  using keepAliveCallback_never_fails [of expired_api demo_credentials "[]"]
    keepAliveCallback_never_fails [of unreachable_api demo_credentials "[]"]
  by (simp add: keepAliveCallback_def login_def expired_api_def unreachable_api_def
      demo_credentials_def loginRequests_def)

subsection \<open>getFinder\<close>

lemma getFinder_cached: "finder vs = Some f \<Longrightarrow> getFinder api vs = (Inr f, vs)"
  by (simp add: getFinder_def)

lemma getFinder_Inr_finder: "getFinder api vs = (Inr f, vs') \<Longrightarrow> finder vs' = Some f"
  by (auto simp: getFinder_def Let_def split: option.splits sum.splits)

lemma getFinder_Inr_again:
  "getFinder api vs = (Inr f, vs') \<Longrightarrow> getFinder api' vs' = (Inr f, vs')"
  by (rule getFinder_cached, rule getFinder_Inr_finder)

lemma demo_getFinder:
  "getFinder demo_api emptySession =
     (Inr \<lparr>Finder_dc = Some (Datacenter ''datacenter-2'')\<rparr>, demo_session)"
  by (simp add: getFinder_def demo_api_def emptySession_def demo_session_def NewFinder_def
      SetDatacenter_def Let_def)

text \<open>
  C9. On a session without a cached finder, a call of \<open>getFinder\<close> that resolves the
  default datacenter returns a finder scoped to that datacenter and stores the
  datacenter and that finder in the session. After any successful call, every further
  call returns the same finder and leaves the session as it is, whatever the control
  plane would answer to a resolution: none takes place. When the resolution fails, the
  error is returned and the session is unchanged.
\<close>

theorem getFinder_lazy_idempotent:
  "(finder vs = None \<and> DefaultDatacenter api NewFinder = Inr dc \<longrightarrow>
      getFinder api vs =
        (Inr (SetDatacenter NewFinder dc),
         vs\<lparr>datacenter := Some dc, finder := Some (SetDatacenter NewFinder dc)\<rparr>) \<and>
      Finder_dc (SetDatacenter NewFinder dc) = Some dc) \<and>
   (\<forall>f vs'. getFinder api vs = (Inr f, vs') \<longrightarrow>
      (\<forall>api'. getFinder api' vs' = (Inr f, vs'))) \<and>
   (\<forall>err. finder vs = None \<and> DefaultDatacenter api NewFinder = Inl err \<longrightarrow>
      getFinder api vs = (Inl (Govmomi err), vs))"
proof (intro conjI allI impI)
  assume "finder vs = None \<and> DefaultDatacenter api NewFinder = Inr dc"
  then show "getFinder api vs =
        (Inr (SetDatacenter NewFinder dc),
         vs\<lparr>datacenter := Some dc, finder := Some (SetDatacenter NewFinder dc)\<rparr>)"
    by (simp add: getFinder_def Let_def)
next
  show "Finder_dc (SetDatacenter NewFinder dc) = Some dc"
    by (simp add: SetDatacenter_def)
next
  fix f vs' api'
  assume "getFinder api vs = (Inr f, vs')"
  then show "getFinder api' vs' = (Inr f, vs')" by (rule getFinder_Inr_again)
next
  fix err
  assume "finder vs = None \<and> DefaultDatacenter api NewFinder = Inl err"
  then show "getFinder api vs = (Inl (Govmomi err), vs)"
    by (simp add: getFinder_def)
qed

theorem getFinder_lazy_idempotent_witness:
  "getFinder demo_api emptySession =
     (Inr \<lparr>Finder_dc = Some (Datacenter ''datacenter-2'')\<rparr>, demo_session) \<and>
   getFinder no_datacenter_api demo_session =
     (Inr \<lparr>Finder_dc = Some (Datacenter ''datacenter-2'')\<rparr>, demo_session) \<and>
   getFinder no_datacenter_api emptySession =
     (Inl (Govmomi (OtherError ''default datacenter not found'')), emptySession)"
proof -
  let ?dc = "Datacenter ''datacenter-2''"
  let ?f = "\<lparr>Finder_dc = Some ?dc\<rparr>"
  have e: "finder emptySession = None"
    by (simp add: emptySession_def)
  have d: "DefaultDatacenter demo_api NewFinder = Inr ?dc"
    by (simp add: demo_api_def)
  have n: "DefaultDatacenter no_datacenter_api NewFinder =
      Inl (OtherError ''default datacenter not found'')"
    by (simp add: no_datacenter_api_def)
  have f: "SetDatacenter NewFinder ?dc = ?f"
    by (simp add: NewFinder_def SetDatacenter_def)
  have s: "emptySession\<lparr>datacenter := Some ?dc, finder := Some ?f\<rparr> = demo_session"
    by (simp add: emptySession_def demo_session_def)
  from getFinder_lazy_idempotent [of emptySession demo_api ?dc] e d
  have "getFinder demo_api emptySession =
      (Inr (SetDatacenter NewFinder ?dc),
       emptySession\<lparr>datacenter := Some ?dc, finder := Some (SetDatacenter NewFinder ?dc)\<rparr>)"
    by blast
  then have first: "getFinder demo_api emptySession = (Inr ?f, demo_session)"
    by (simp only: f s)
  from getFinder_lazy_idempotent [of emptySession demo_api ?dc] first
  have again: "getFinder no_datacenter_api demo_session = (Inr ?f, demo_session)"
    by blast
  from getFinder_lazy_idempotent [of emptySession no_datacenter_api ?dc] e n
  have failed: "getFinder no_datacenter_api emptySession =
      (Inl (Govmomi (OtherError ''default datacenter not found'')), emptySession)"
    by blast
  from first again failed show ?thesis by (intro conjI)
qed

subsection \<open>The cached fields across the methods\<close>

lemma cache_ok_getFinder: "cache_ok vs \<Longrightarrow> cache_ok (snd (getFinder api vs))"
  by (auto simp: cache_ok_def getFinder_def Let_def split: option.splits sum.splits)

lemma getFinder_twice: "snd (getFinder api (snd (getFinder api vs))) = snd (getFinder api vs)"
  by (auto simp: getFinder_def Let_def split: option.splits sum.splits)

lemma snd_addEthernet: "snd (addEthernet api vs devices label) = snd (getFinder api vs)"
  by (auto simp: addEthernet_def Let_def split: prod.splits sum.splits)

lemma snd_addDisk: "snd (addDisk api vs devices params) = snd (getFinder api vs)"
  by (auto simp: addDisk_def Let_def split: prod.splits sum.splits)

lemma snd_VirtualMachine: "snd (VirtualMachine api vs path) = snd (getFinder api vs)"
  by (auto simp: VirtualMachine_def split: prod.splits sum.splits)

lemma snd_createConfigSpec: "snd (createConfigSpec api vs params) = snd (getFinder api vs)"
proof -
  let ?g = "snd (getFinder api vs)"
  have a: "snd (addEthernet api vs [] (NetworkLabel params)) = ?g" by (rule snd_addEthernet)
  have d: "\<And>devs. snd (addDisk api ?g devs params) = ?g"
    by (simp add: snd_addDisk getFinder_twice)
  have g: "snd (getFinder api ?g) = ?g" by (rule getFinder_twice)
  show ?thesis
    unfolding createConfigSpec_def
    using a d g
    by (auto simp: Let_def split: prod.splits sum.splits) (metis snd_conv)+
qed

lemma snd_CreateVM: "snd (CreateVM api vs params) = snd (getFinder api vs)"
proof -
  let ?g = "snd (getFinder api vs)"
  have c: "snd (createConfigSpec api ?g params) = ?g"
    by (simp add: snd_createConfigSpec getFinder_twice)
  have v: "\<And>p. snd (VirtualMachine api ?g p) = ?g"
    by (simp add: snd_VirtualMachine getFinder_twice)
  show ?thesis
    unfolding CreateVM_def
    using c v
    by (auto simp: Let_def split: prod.splits sum.splits option.splits)
qed

lemma reachable_cache_ok: "reachable vs \<Longrightarrow> cache_ok vs"
proof (induction rule: reachable.induct)
  case reachable_new
  show ?case by (simp add: cache_ok_def emptySession_def)
next
  case (reachable_getFinder vs api)
  then show ?case by (simp add: cache_ok_getFinder)
next
  case (reachable_VirtualMachine vs api path)
  then show ?case by (simp add: snd_VirtualMachine cache_ok_getFinder)
next
  case (reachable_CreateVM vs api params)
  then show ?case by (simp add: snd_CreateVM cache_ok_getFinder)
qed

lemma getFinder_Inr_datacenter:
  "cache_ok vs \<Longrightarrow> getFinder api vs = (Inr f, vs') \<Longrightarrow> \<exists>dc. datacenter vs' = Some dc"
  by (auto simp: cache_ok_def getFinder_def Let_def split: option.splits sum.splits)

lemma vmFolder_loaded:
  "datacenter vs = Some dc \<Longrightarrow>
   vmFolder api vs =
     (case Folders api dc of Inl err \<Rightarrow> Inl (Govmomi err)
      | Inr dcFolders \<Rightarrow> Inr (VmFolder dcFolders))"
  by (simp add: vmFolder_def)

lemma getFinder_no_ErrorsNew: "fst (getFinder api vs) \<noteq> Inl (ErrorsNew msg)"
  by (auto simp: getFinder_def Let_def split: option.splits sum.splits)

lemma addEthernet_no_ErrorsNew: "fst (addEthernet api vs devices label) \<noteq> Inl (ErrorsNew msg)"
  using getFinder_no_ErrorsNew[of api vs msg]
  by (auto simp: addEthernet_def Let_def split: prod.splits sum.splits)

lemma addDisk_no_ErrorsNew: "fst (addDisk api vs devices params) \<noteq> Inl (ErrorsNew msg)"
  using getFinder_no_ErrorsNew[of api vs msg]
  by (auto simp: addDisk_def Let_def split: prod.splits sum.splits)

lemma VirtualMachine_no_ErrorsNew: "fst (VirtualMachine api vs path) \<noteq> Inl (ErrorsNew msg)"
  using getFinder_no_ErrorsNew[of api vs msg]
  by (auto simp: VirtualMachine_def split: prod.splits sum.splits)

lemma createConfigSpec_no_ErrorsNew:
  "fst (createConfigSpec api vs params) \<noteq> Inl (ErrorsNew msg)"
proof
  assume a: "fst (createConfigSpec api vs params) = Inl (ErrorsNew msg)"
  obtain r1 vs1 where e: "addEthernet api vs [] (NetworkLabel params) = (r1, vs1)"
    by (cases "addEthernet api vs [] (NetworkLabel params)")
  from addEthernet_no_ErrorsNew[of api vs "[]" "NetworkLabel params" msg] e
  have r1: "r1 \<noteq> Inl (ErrorsNew msg)" by simp
  have d: "\<And>devs. fst (addDisk api vs1 devs params) \<noteq> Inl (ErrorsNew msg)"
    by (rule addDisk_no_ErrorsNew)
  have g: "\<And>v. fst (getFinder api v) \<noteq> Inl (ErrorsNew msg)"
    by (rule getFinder_no_ErrorsNew)
  from a e r1 show False
    unfolding createConfigSpec_def
    apply (simp add: Let_def addSCSI_def CreateSCSIController_scsi_def addUSB_def
        ConfigSpec_add_def split: prod.splits sum.splits)
    using d g by (metis fst_conv)+
qed

text \<open>
  The property below needs the session to be one the package can hold: on a session
  with a finder and no datacenter, which no method leaves behind, \<open>CreateVM\<close> does stop
  at the error of \<open>vmFolder\<close>.
\<close>

lemma CreateVM_datacenter_not_loaded:
  "fst (CreateVM demo_api \<lparr>datacenter = None, finder = Some NewFinder\<rparr> demo_params) =
     Inl (ErrorsNew ''datacenter not loaded'')"
  by (simp add: CreateVM_def getFinder_def vmFolder_def)

text \<open>
  C10. For every session the package can hold (the one \<open>NewSession\<close> starts from, or
  one left behind by \<open>getFinder\<close>, \<open>VirtualMachine\<close> or \<open>CreateVM\<close>): after a successful
  \<open>getFinder\<close> the datacenter field is set, so that \<open>vmFolder\<close> answers with the result of
  the folders lookup, be it the folder or the lookup's error; and \<open>CreateVM\<close> never
  returns the error \<open>datacenter not loaded\<close>, the only error the package makes itself.
\<close>

theorem CreateVM_datacenter_loaded:
  assumes "reachable vs"
  shows "(\<forall>f vs1. getFinder api vs = (Inr f, vs1) \<longrightarrow>
           (\<exists>dc. datacenter vs1 = Some dc \<and>
              vmFolder api vs1 =
                (case Folders api dc of Inl err \<Rightarrow> Inl (Govmomi err)
                 | Inr dcFolders \<Rightarrow> Inr (VmFolder dcFolders)))) \<and>
         (\<forall>msg. fst (CreateVM api vs params) \<noteq> Inl (ErrorsNew msg))"
proof (intro conjI allI impI)
  fix f vs1
  assume g: "getFinder api vs = (Inr f, vs1)"
  from reachable_cache_ok[OF assms] g obtain dc where "datacenter vs1 = Some dc"
    by (blast dest: getFinder_Inr_datacenter)
  then show "\<exists>dc. datacenter vs1 = Some dc \<and>
              vmFolder api vs1 =
                (case Folders api dc of Inl err \<Rightarrow> Inl (Govmomi err)
                 | Inr dcFolders \<Rightarrow> Inr (VmFolder dcFolders))"
    by (simp add: vmFolder_loaded)
next
  fix msg
  show "fst (CreateVM api vs params) \<noteq> Inl (ErrorsNew msg)"
  proof (cases "getFinder api vs")
    case (Pair r vs1)
    show ?thesis
    proof (cases r)
      case (Inl e)
      with Pair getFinder_no_ErrorsNew[of api vs msg] show ?thesis
        by (simp add: CreateVM_def)
    next
      case (Inr f)
      with Pair reachable_cache_ok[OF assms] obtain dc where dc: "datacenter vs1 = Some dc"
        by (blast dest: getFinder_Inr_datacenter)
      have c: "fst (createConfigSpec api vs1 params) \<noteq> Inl (ErrorsNew msg)"
        by (rule createConfigSpec_no_ErrorsNew)
      have v: "\<And>v p. fst (VirtualMachine api v p) \<noteq> Inl (ErrorsNew msg)"
        by (rule VirtualMachine_no_ErrorsNew)
      from Pair Inr dc c show ?thesis
        unfolding CreateVM_def
        apply (simp add: vmFolder_loaded split: prod.splits sum.splits option.splits)
        using v by (metis fst_conv)+
    qed
  qed
qed

theorem CreateVM_datacenter_loaded_witness:
  "getFinder demo_api emptySession =
     (Inr \<lparr>Finder_dc = Some (Datacenter ''datacenter-2'')\<rparr>, demo_session) \<and>
   datacenter demo_session = Some (Datacenter ''datacenter-2'') \<and>
   vmFolder demo_api demo_session = Inr \<lparr>InventoryPath = ''/dc/vm''\<rparr> \<and>
   fst (CreateVM demo_api emptySession demo_params) \<noteq> Inl (ErrorsNew ''datacenter not loaded'')"
  using CreateVM_datacenter_loaded [OF reachable_new, of demo_api demo_params] demo_getFinder
  by (simp add: demo_session_def demo_api_def)

section \<open>Properties of the specification builder\<close>

subsection \<open>The extra configuration\<close>

lemma guestInfoLoop_eq:
  "guestInfoLoop gi extraConfig =
     extraConfig @ map (\<lambda>(key, val). \<lparr>Key = ''guestinfo.'' @ key, Value = val\<rparr>) gi"
  by (induction gi extraConfig rule: guestInfoLoop.induct) simp_all

lemma buildExtraConfig_eq:
  "buildExtraConfig params =
     [\<lparr>Key = ''guestinfo.vmkite-buildkite-agent-token'', Value = BuildkiteAgentToken params\<rparr>,
      \<lparr>Key = ''guestinfo.vmkite-name'', Value = Name params\<rparr>,
      \<lparr>Key = ''guestinfo.vmkite-vmdk'', Value = SrcDiskPath params\<rparr>]
     @ map (\<lambda>(key, val). \<lparr>Key = ''guestinfo.'' @ key, Value = val\<rparr>) (GuestInfo params)
     @ [\<lparr>Key = ''ethernet0.pciSlotNumber'', Value = ''32''\<rparr>]"
  by (simp add: buildExtraConfig_def guestInfoLoop_eq)

lemma createConfigSpec_ExtraConfig:
  "createConfigSpec api vs params = (Inr cs, vs') \<Longrightarrow> ExtraConfig cs = buildExtraConfig params"
  unfolding createConfigSpec_def
  by (auto simp: Let_def split: prod.splits sum.splits)

lemma createConfigSpec_Inr:
  assumes g: "getFinder api vs = (Inr f, vs')"
    and n: "FinderNetwork api f (''*'' @ NetworkLabel params) = Inr network"
    and b: "EthernetCardBackingInfo api network = Inr backing"
    and s: "FinderDatastore api f (SrcDiskDataStore params) = Inr diskDatastore"
    and t: "FinderDatastore api f (DatastoreName params) = Inr ds"
  shows "\<exists>cs. createConfigSpec api vs params = (Inr cs, vs') \<and>
     map Device (DeviceChange cs) =
       [Vmxnet3 \<lparr>CardBacking = Some backing, AddressType = ''generated''\<rparr>,
        SCSIController \<lparr>Controller_Key = NewKey api, Controller_Device = []\<rparr>,
        Disk \<lparr>ControllerKey = NewKey api,
              Backing =
                \<lparr>FileName =
                   (let name = Datastore_Path api diskDatastore (SrcDiskPath params)
                    in if name \<noteq> [] \<and> Ext name \<noteq> ''.vmdk'' then name @ ''.vmdk'' else name),
                 BackingDatastore = Some (Datastore_Reference diskDatastore),
                 DiskMode = ''independent_nonpersistent'',
                 ThinProvisioned = Some True\<rparr>\<rparr>,
        USBController \<lparr>AutoConnectDevices = Some True, EhciEnabled = Some True\<rparr>] \<and>
     map Operation (DeviceChange cs) = [''add'', ''add'', ''add'', ''add'']"
proof -
  have g': "getFinder api vs' = (Inr f, vs')" by (rule getFinder_Inr_again[OF g])
  have e: "addEthernet api vs [] (NetworkLabel params) =
      (Inr [Vmxnet3 \<lparr>CardBacking = Some backing, AddressType = ''generated''\<rparr>], vs')"
    using g n b by (simp add: addEthernet_def CreateEthernetCard_vmxnet3_def)
  have c: "addSCSI api [Vmxnet3 \<lparr>CardBacking = Some backing, AddressType = ''generated''\<rparr>] =
      Inr [Vmxnet3 \<lparr>CardBacking = Some backing, AddressType = ''generated''\<rparr>,
           SCSIController \<lparr>Controller_Key = NewKey api, Controller_Device = []\<rparr>]"
    by (simp add: addSCSI_def CreateSCSIController_scsi_def)
  have d: "addDisk api vs' [Vmxnet3 \<lparr>CardBacking = Some backing, AddressType = ''generated''\<rparr>,
           SCSIController \<lparr>Controller_Key = NewKey api, Controller_Device = []\<rparr>] params =
      (Inr [Vmxnet3 \<lparr>CardBacking = Some backing, AddressType = ''generated''\<rparr>,
            SCSIController \<lparr>Controller_Key = NewKey api, Controller_Device = []\<rparr>,
            Disk \<lparr>ControllerKey = NewKey api,
              Backing =
                \<lparr>FileName =
                   (let name = Datastore_Path api diskDatastore (SrcDiskPath params)
                    in if name \<noteq> [] \<and> Ext name \<noteq> ''.vmdk'' then name @ ''.vmdk'' else name),
                 BackingDatastore = Some (Datastore_Reference diskDatastore),
                 DiskMode = ''independent_nonpersistent'',
                 ThinProvisioned = Some True\<rparr>\<rparr>], vs')"
    using g' s by (simp add: addDisk_def FindDiskController_scsi_def CreateDisk_def Let_def)
  show ?thesis
    unfolding createConfigSpec_def
    using e c d g' t by (simp add: addUSB_def ConfigSpec_add_def Let_def)
qed

lemma demo_createConfigSpec:
  "createConfigSpec demo_api emptySession demo_params = (Inr demo_spec, demo_session)"
proof -
  have g: "getFinder demo_api demo_session =
      (Inr \<lparr>Finder_dc = Some (Datacenter ''datacenter-2'')\<rparr>, demo_session)"
    by (rule getFinder_Inr_again[OF demo_getFinder])
  have e: "addEthernet demo_api emptySession [] (NetworkLabel demo_params) =
      (Inr [Vmxnet3 \<lparr>CardBacking = Some (EthernetCardBacking ''VM Network''),
                     AddressType = ''generated''\<rparr>], demo_session)"
    using demo_getFinder
    by (simp add: addEthernet_def CreateEthernetCard_vmxnet3_def demo_api_def)
  have c: "addSCSI demo_api [Vmxnet3 \<lparr>CardBacking = Some (EthernetCardBacking ''VM Network''),
                     AddressType = ''generated''\<rparr>] =
      Inr [Vmxnet3 \<lparr>CardBacking = Some (EthernetCardBacking ''VM Network''),
                     AddressType = ''generated''\<rparr>, SCSIController demo_controller]"
    by (simp add: addSCSI_def CreateSCSIController_scsi_def demo_api_def demo_controller_def)
  have d: "addDisk demo_api demo_session
        [Vmxnet3 \<lparr>CardBacking = Some (EthernetCardBacking ''VM Network''),
                     AddressType = ''generated''\<rparr>, SCSIController demo_controller] demo_params =
      (Inr [Vmxnet3 \<lparr>CardBacking = Some (EthernetCardBacking ''VM Network''),
                     AddressType = ''generated''\<rparr>, SCSIController demo_controller,
            Disk demo_disk], demo_session)"
    using g
    by (simp add: addDisk_def FindDiskController_scsi_def CreateDisk_def Let_def Ext_def
        demo_api_def demo_params_def demo_controller_def demo_disk_def)
  have x: "buildExtraConfig demo_params = ExtraConfig demo_spec"
    by (simp add: buildExtraConfig_def demo_params_def demo_spec_def)
  have t: "FinderDatastore demo_api \<lparr>Finder_dc = Some (Datacenter ''datacenter-2'')\<rparr>
        (DatastoreName demo_params) =
      Inr \<lparr>Datastore_Name = ''vms'', Datastore_Reference = ''datastore-5''\<rparr>"
    by (simp add: demo_api_def demo_params_def)
  show ?thesis
    unfolding createConfigSpec_def
    using e c d g t x
    by (simp add: addUSB_def ConfigSpec_add_def Let_def demo_spec_def demo_devices_def
        demo_params_def)
qed

text \<open>
  C5. For every parameter record, the extra configuration that \<open>createConfigSpec\<close>
  builds consists of the three fixed entries \<open>guestinfo.vmkite-buildkite-agent-token\<close>,
  \<open>guestinfo.vmkite-name\<close> and \<open>guestinfo.vmkite-vmdk\<close>, then one entry
  \<open>guestinfo.<key>\<close> for each entry of \<open>GuestInfo\<close>, then the entry
  \<open>ethernet0.pciSlotNumber\<close>, which is the only entry with that key: in all
  \<open>4 + |GuestInfo|\<close> entries. It is the extra configuration of every specification that
  \<open>createConfigSpec\<close> returns.
\<close>

theorem createConfigSpec_extra_config:
  "buildExtraConfig params =
     [\<lparr>Key = ''guestinfo.vmkite-buildkite-agent-token'', Value = BuildkiteAgentToken params\<rparr>,
      \<lparr>Key = ''guestinfo.vmkite-name'', Value = Name params\<rparr>,
      \<lparr>Key = ''guestinfo.vmkite-vmdk'', Value = SrcDiskPath params\<rparr>]
     @ map (\<lambda>(key, val). \<lparr>Key = ''guestinfo.'' @ key, Value = val\<rparr>) (GuestInfo params)
     @ [\<lparr>Key = ''ethernet0.pciSlotNumber'', Value = ''32''\<rparr>] \<and>
   length (buildExtraConfig params) = 4 + length (GuestInfo params) \<and>
   length (filter (\<lambda>ov. Key ov = ''ethernet0.pciSlotNumber'') (buildExtraConfig params)) = 1 \<and>
   (\<forall>api vs cs vs'. createConfigSpec api vs params = (Inr cs, vs') \<longrightarrow>
      ExtraConfig cs = buildExtraConfig params)"
proof (intro conjI allI impI)
  show "length (buildExtraConfig params) = 4 + length (GuestInfo params)"
    by (simp add: buildExtraConfig_eq)
  show "length (filter (\<lambda>ov. Key ov = ''ethernet0.pciSlotNumber'') (buildExtraConfig params)) = 1"
    by (simp add: buildExtraConfig_eq o_def split_def)
qed (simp_all add: buildExtraConfig_eq createConfigSpec_ExtraConfig)

theorem createConfigSpec_extra_config_witness:
  "createConfigSpec demo_api emptySession demo_params = (Inr demo_spec, demo_session) \<and>
   ExtraConfig demo_spec = buildExtraConfig demo_params \<and>
   length (ExtraConfig demo_spec) = 4 + length (GuestInfo demo_params) \<and>
   map Key (ExtraConfig demo_spec) =
     [''guestinfo.vmkite-buildkite-agent-token'', ''guestinfo.vmkite-name'',
      ''guestinfo.vmkite-vmdk'', ''guestinfo.vmkite-guestid'', ''ethernet0.pciSlotNumber'']"
proof -
  have x: "ExtraConfig demo_spec = buildExtraConfig demo_params"
    by (rule createConfigSpec_extra_config [of demo_params, THEN conjunct2, THEN conjunct2,
          THEN conjunct2, rule_format, OF demo_createConfigSpec])
  have l: "length (ExtraConfig demo_spec) = 4 + length (GuestInfo demo_params)"
    by (simp add: demo_spec_def demo_params_def)
  have k: "map Key (ExtraConfig demo_spec) =
     [''guestinfo.vmkite-buildkite-agent-token'', ''guestinfo.vmkite-name'',
      ''guestinfo.vmkite-vmdk'', ''guestinfo.vmkite-guestid'', ''ethernet0.pciSlotNumber'']"
    by (simp add: demo_spec_def)
  from demo_createConfigSpec x l k show ?thesis by (intro conjI)
qed

subsection \<open>The disk and its controller\<close>

lemma set_SelectSCSI: "set (SelectSCSI l) = {c. SCSIController c \<in> set l}"
  by (induction l rule: SelectSCSI.induct) auto

lemma FindDiskController_scsi_none:
  assumes "\<forall>c. SCSIController c \<notin> set l"
  shows "FindDiskController_scsi l = Inl (OtherError ''no available SCSI controller'')"
proof -
  from assms have "set (SelectSCSI l) = {}" by (simp add: set_SelectSCSI)
  then show ?thesis by (simp add: FindDiskController_scsi_def)
qed

lemma FindDiskController_scsi_Inr:
  assumes "FindDiskController_scsi l = Inr c"
  shows "SCSIController c \<in> set l"
proof -
  from assms obtain cs where
    "filter (\<lambda>c. length (Controller_Device c) < 15) (SelectSCSI l) = c # cs"
    by (auto simp: FindDiskController_scsi_def split: list.splits)
  then have "c \<in> set (filter (\<lambda>c. length (Controller_Device c) < 15) (SelectSCSI l))"
    by simp
  then show ?thesis by (simp add: set_SelectSCSI)
qed

text \<open>
  C6. On a device list without a SCSI controller \<open>addDisk\<close> returns an error and no
  device list; when the finder and the source datastore are found, that error is the
  failure of the controller lookup. Whenever \<open>addDisk\<close> returns a device list, it is the
  given list with one disk appended, and the disk carries the key of a SCSI controller
  of the given list, the one the controller lookup answered with.
\<close>

theorem addDisk_controller:
  "((\<forall>c. SCSIController c \<notin> set devices) \<longrightarrow>
      (\<exists>err. fst (addDisk api vs devices params) = Inl err) \<and>
      (\<forall>f vs' diskDatastore.
         getFinder api vs = (Inr f, vs') \<and>
         FinderDatastore api f (SrcDiskDataStore params) = Inr diskDatastore \<longrightarrow>
         addDisk api vs devices params =
           (Inl (Govmomi (OtherError ''no available SCSI controller'')), vs'))) \<and>
   (\<forall>devices' vs'. addDisk api vs devices params = (Inr devices', vs') \<longrightarrow>
      (\<exists>controller disk.
         FindDiskController_scsi devices = Inr controller \<and>
         SCSIController controller \<in> set devices \<and>
         devices' = devices @ [Disk disk] \<and>
         ControllerKey disk = Controller_Key controller))"
proof (intro conjI allI impI)
  assume n: "\<forall>c. SCSIController c \<notin> set devices"
  show "\<exists>err. fst (addDisk api vs devices params) = Inl err"
    by (auto simp: addDisk_def FindDiskController_scsi_none[OF n] split: prod.splits sum.splits)
next
  fix f vs' diskDatastore
  assume n: "\<forall>c. SCSIController c \<notin> set devices"
    and "getFinder api vs = (Inr f, vs') \<and>
         FinderDatastore api f (SrcDiskDataStore params) = Inr diskDatastore"
  then show "addDisk api vs devices params =
           (Inl (Govmomi (OtherError ''no available SCSI controller'')), vs')"
    by (simp add: addDisk_def FindDiskController_scsi_none[OF n])
next
  fix devices' vs'
  assume "addDisk api vs devices params = (Inr devices', vs')"
  then obtain controller disk where
    c: "FindDiskController_scsi devices = Inr controller" and
    d: "devices' = devices @ [Disk disk]" and
    k: "ControllerKey disk = Controller_Key controller"
    by (auto simp: addDisk_def Let_def CreateDisk_def split: prod.splits sum.splits)
  from FindDiskController_scsi_Inr[OF c] c d k
  show "\<exists>controller disk.
         FindDiskController_scsi devices = Inr controller \<and>
         SCSIController controller \<in> set devices \<and>
         devices' = devices @ [Disk disk] \<and>
         ControllerKey disk = Controller_Key controller"
    by blast
qed

theorem addDisk_controller_witness:
  "addDisk demo_api emptySession [] demo_params =
     (Inl (Govmomi (OtherError ''no available SCSI controller'')), demo_session) \<and>
   addDisk demo_api emptySession [SCSIController demo_controller] demo_params =
     (Inr [SCSIController demo_controller, Disk demo_disk], demo_session) \<and>
   ControllerKey demo_disk = Controller_Key demo_controller"
proof -
  let ?f = "\<lparr>Finder_dc = Some (Datacenter ''datacenter-2'')\<rparr>"
  have s: "FinderDatastore demo_api ?f (SrcDiskDataStore demo_params) =
      Inr \<lparr>Datastore_Name = ''images'', Datastore_Reference = ''datastore-5''\<rparr>"
    by (simp add: demo_api_def demo_params_def)
  have e: "SCSIController c \<notin> set []" for c by simp
  have none: "addDisk demo_api emptySession [] demo_params =
     (Inl (Govmomi (OtherError ''no available SCSI controller'')), demo_session)"
    by (rule addDisk_controller [of "[]" demo_api emptySession demo_params, THEN conjunct1,
          rule_format, OF e, THEN conjunct2, rule_format, OF conjI [OF demo_getFinder s]])
  have some: "addDisk demo_api emptySession [SCSIController demo_controller] demo_params =
     (Inr [SCSIController demo_controller, Disk demo_disk], demo_session)"
    using demo_getFinder
    by (simp add: addDisk_def FindDiskController_scsi_def CreateDisk_def Let_def Ext_def
        demo_api_def demo_params_def demo_controller_def demo_disk_def)
  from addDisk_controller [of "[SCSIController demo_controller]" demo_api emptySession
      demo_params, THEN conjunct2, rule_format, OF some]
  obtain controller disk where
    c: "FindDiskController_scsi [SCSIController demo_controller] = Inr controller" and
    d: "[SCSIController demo_controller, Disk demo_disk] =
        [SCSIController demo_controller] @ [Disk disk]" and
    k: "ControllerKey disk = Controller_Key controller"
    by (elim exE conjE)
  from c have "controller = demo_controller"
    by (simp add: FindDiskController_scsi_def demo_controller_def)
  moreover from d have "disk = demo_disk" by simp
  ultimately have key: "ControllerKey demo_disk = Controller_Key demo_controller"
    using k by simp
  from none some key show ?thesis by (intro conjI)
qed

subsection \<open>The device list\<close>

text \<open>
  C2. Let the finder be available (cached, or resolved now), and the network, the
  backing of the network, the source datastore and the target datastore be found. Then
  \<open>createConfigSpec\<close> returns a specification, and its device changes add, in this
  order, exactly four devices: one ethernet card with the backing of the network and a
  generated address; one SCSI controller; one disk that carries the key of that
  controller, on a backing with the source datastore, thin-provisioned and in the disk
  mode \<open>independent_nonpersistent\<close>; one USB controller with auto-connect and EHCI.
\<close>

theorem createConfigSpec_device_list:
  assumes "getFinder api vs = (Inr f, vs')"
    and "FinderNetwork api f (''*'' @ NetworkLabel params) = Inr network"
    and "EthernetCardBackingInfo api network = Inr backing"
    and "FinderDatastore api f (SrcDiskDataStore params) = Inr diskDatastore"
    and "FinderDatastore api f (DatastoreName params) = Inr ds"
  shows "\<exists>cs. createConfigSpec api vs params = (Inr cs, vs') \<and>
     map Device (DeviceChange cs) =
       [Vmxnet3 \<lparr>CardBacking = Some backing, AddressType = ''generated''\<rparr>,
        SCSIController \<lparr>Controller_Key = NewKey api, Controller_Device = []\<rparr>,
        Disk \<lparr>ControllerKey = NewKey api,
              Backing =
                \<lparr>FileName =
                   (let name = Datastore_Path api diskDatastore (SrcDiskPath params)
                    in if name \<noteq> [] \<and> Ext name \<noteq> ''.vmdk'' then name @ ''.vmdk'' else name),
                 BackingDatastore = Some (Datastore_Reference diskDatastore),
                 DiskMode = ''independent_nonpersistent'',
                 ThinProvisioned = Some True\<rparr>\<rparr>,
        USBController \<lparr>AutoConnectDevices = Some True, EhciEnabled = Some True\<rparr>] \<and>
     map Operation (DeviceChange cs) = [''add'', ''add'', ''add'', ''add'']"
  using assms by (rule createConfigSpec_Inr)

theorem createConfigSpec_device_list_witness:
  "createConfigSpec demo_api emptySession demo_params = (Inr demo_spec, demo_session) \<and>
   map Device (DeviceChange demo_spec) =
     [Vmxnet3 \<lparr>CardBacking = Some (EthernetCardBacking ''VM Network''),
               AddressType = ''generated''\<rparr>,
      SCSIController \<lparr>Controller_Key = - 201, Controller_Device = []\<rparr>,
      Disk \<lparr>ControllerKey = - 201,
            Backing = \<lparr>FileName = ''[images] /vol/base.vmdk'',
                       BackingDatastore = Some ''datastore-5'',
                       DiskMode = ''independent_nonpersistent'',
                       ThinProvisioned = Some True\<rparr>\<rparr>,
      USBController \<lparr>AutoConnectDevices = Some True, EhciEnabled = Some True\<rparr>]"
proof -
  let ?f = "\<lparr>Finder_dc = Some (Datacenter ''datacenter-2'')\<rparr>"
  have n: "FinderNetwork demo_api ?f (''*'' @ NetworkLabel demo_params) = Inr (Network ''network-7'')"
    by (simp add: demo_api_def)
  have b: "EthernetCardBackingInfo demo_api (Network ''network-7'') =
      Inr (EthernetCardBacking ''VM Network'')"
    by (simp add: demo_api_def)
  have s: "FinderDatastore demo_api ?f (SrcDiskDataStore demo_params) =
      Inr \<lparr>Datastore_Name = ''images'', Datastore_Reference = ''datastore-5''\<rparr>"
    by (simp add: demo_api_def demo_params_def)
  have t: "FinderDatastore demo_api ?f (DatastoreName demo_params) =
      Inr \<lparr>Datastore_Name = ''vms'', Datastore_Reference = ''datastore-5''\<rparr>"
    by (simp add: demo_api_def demo_params_def)
  from createConfigSpec_device_list [OF demo_getFinder n b s t]
  obtain cs where
    r: "createConfigSpec demo_api emptySession demo_params = (Inr cs, demo_session)" and
    d: "map Device (DeviceChange cs) =
       [Vmxnet3 \<lparr>CardBacking = Some (EthernetCardBacking ''VM Network''),
                 AddressType = ''generated''\<rparr>,
        SCSIController \<lparr>Controller_Key = NewKey demo_api, Controller_Device = []\<rparr>,
        Disk \<lparr>ControllerKey = NewKey demo_api,
              Backing =
                \<lparr>FileName =
                   (let name = Datastore_Path demo_api
                      \<lparr>Datastore_Name = ''images'', Datastore_Reference = ''datastore-5''\<rparr>
                      (SrcDiskPath demo_params)
                    in if name \<noteq> [] \<and> Ext name \<noteq> ''.vmdk'' then name @ ''.vmdk'' else name),
                 BackingDatastore = Some (Datastore_Reference
                   \<lparr>Datastore_Name = ''images'', Datastore_Reference = ''datastore-5''\<rparr>),
                 DiskMode = ''independent_nonpersistent'',
                 ThinProvisioned = Some True\<rparr>\<rparr>,
        USBController \<lparr>AutoConnectDevices = Some True, EhciEnabled = Some True\<rparr>]"
    by (elim exE conjE)
  from r demo_createConfigSpec have cs: "cs = demo_spec" by simp
  have v: "map Device (DeviceChange demo_spec) =
     [Vmxnet3 \<lparr>CardBacking = Some (EthernetCardBacking ''VM Network''),
               AddressType = ''generated''\<rparr>,
      SCSIController \<lparr>Controller_Key = - 201, Controller_Device = []\<rparr>,
      Disk \<lparr>ControllerKey = - 201,
            Backing = \<lparr>FileName = ''[images] /vol/base.vmdk'',
                       BackingDatastore = Some ''datastore-5'',
                       DiskMode = ''independent_nonpersistent'',
                       ThinProvisioned = Some True\<rparr>\<rparr>,
      USBController \<lparr>AutoConnectDevices = Some True, EhciEnabled = Some True\<rparr>]"
    using d unfolding cs
    by (simp add: demo_api_def demo_params_def Ext_def)
  from demo_createConfigSpec v show ?thesis by (intro conjI)
qed

end
